theory Spec2Isabelle
  imports Main
begin

section \<open>Python strings and the built-ins the form filler relies on\<close>

text \<open>
  A Python \<^verbatim>\<open>str\<close> is a sequence of Unicode code points. It is modelled as a list of
  natural numbers, one per code point, so that \<^verbatim>\<open>len\<close>, slicing and \<^verbatim>\<open>chr\<close> count what
  Python counts. String literals of the source are written as HOL strings and turned
  into code points by \<open>lit\<close>.
\<close>

type_synonym pystr = "nat list"

definition lit :: "string \<Rightarrow> pystr" where
  "lit s = map of_char s"

text \<open>Exceptions are values; only their class matters to the handlers of the source.\<close>

datatype py_exn =
  KeyError | ValueError | TypeError | AttributeError | UnicodeEncodeError | OSError

definition bind_exn :: "py_exn + 'a \<Rightarrow> ('a \<Rightarrow> py_exn + 'b) \<Rightarrow> py_exn + 'b" where
  "bind_exn r f = (case r of Inl e \<Rightarrow> Inl e | Inr x \<Rightarrow> f x)"

text \<open>
  The parts of the Unicode character database that \<^verbatim>\<open>int()\<close> and \<^verbatim>\<open>str.isdigit\<close>
  consult for code points outside ASCII depend on the interpreter's Unicode version.
  They are parameters of the model: \<open>u_isspace\<close> is Py_UNICODE_ISSPACE,
  \<open>u_decimal\<close> is Py_UNICODE_TODECIMAL (\<open>None\<close> where CPython answers -1) and
  \<open>u_isdigit\<close> is the digit property behind \<^verbatim>\<open>str.isdigit\<close>.
\<close>

record unicode_db =
  u_isspace :: "nat \<Rightarrow> bool"
  u_decimal :: "nat \<Rightarrow> nat option"
  u_isdigit :: "nat \<Rightarrow> bool"

text \<open>\<^verbatim>\<open>s.startswith(p)\<close>, \<^verbatim>\<open>s.endswith(p)\<close> and the slices \<^verbatim>\<open>s[a:-1]\<close>.\<close>

definition startswith :: "pystr \<Rightarrow> pystr \<Rightarrow> bool" where
  "startswith s p = (take (length p) s = p)"

definition endswith :: "pystr \<Rightarrow> pystr \<Rightarrow> bool" where
  "endswith s p = (length p \<le> length s \<and> drop (length s - length p) s = p)"

definition slice_to_last :: "nat \<Rightarrow> pystr \<Rightarrow> pystr" where
  "slice_to_last a s = drop a (butlast s)"

text \<open>\<^verbatim>\<open>s.split(sep)\<close> for a one-character separator: never empty, keeps empty parts.\<close>

fun py_split :: "nat \<Rightarrow> pystr \<Rightarrow> pystr list" where
  "py_split sep [] = [[]]"
| "py_split sep (c # cs) =
     (if c = sep then [] # py_split sep cs
      else (case py_split sep cs of
              [] \<Rightarrow> [[c]]
            | p # ps \<Rightarrow> (c # p) # ps))"

text \<open>
  \<^verbatim>\<open>s.zfill(width)\<close>: pads with \<^verbatim>\<open>'0'\<close> on the left up to \<open>width\<close>; a leading sign
  stays in front of the padding.
\<close>

definition zfill :: "nat \<Rightarrow> pystr \<Rightarrow> pystr" where
  "zfill width s =
     (if width \<le> length s then s
      else (case s of
              [] \<Rightarrow> replicate width 48
            | c # r \<Rightarrow>
                if c = 43 \<or> c = 45 then c # replicate (width - length s) 48 @ r
                else replicate (width - length s) 48 @ s))"

text \<open>
  \<^verbatim>\<open>int(s, base)\<close> for a string argument, after CPython: the string is first brought to
  ASCII (code points below 127 stay, other white space becomes a blank, other decimal
  digits become ASCII digits, anything else becomes \<^verbatim>\<open>'?'\<close>); then leading white
  space, one optional sign, for base 16 an optional \<^verbatim>\<open>0x\<close> prefix (one underscore may
  follow it), digits with single underscores between them, and trailing white space.
  Every other shape is a \<open>ValueError\<close>.
\<close>

definition ascii_space :: "nat \<Rightarrow> bool" where
  "ascii_space c = (c = 32 \<or> (9 \<le> c \<and> c \<le> 13))"

definition to_ascii :: "unicode_db \<Rightarrow> nat \<Rightarrow> nat" where
  "to_ascii db c =
     (if c < 127 then c
      else if u_isspace db c then 32
      else (case u_decimal db c of
              Some d \<Rightarrow> if d < 10 then 48 + d else 63
            | None \<Rightarrow> 63))"

definition digit_value :: "nat \<Rightarrow> nat" where
  "digit_value c =
     (if 48 \<le> c \<and> c \<le> 57 then c - 48
      else if 97 \<le> c \<and> c \<le> 122 then c - 87
      else if 65 \<le> c \<and> c \<le> 90 then c - 55
      else 37)"

definition digit_or_underscore :: "nat \<Rightarrow> nat \<Rightarrow> bool" where
  "digit_or_underscore base c = (digit_value c < base \<or> c = 95)"

fun underscores_ok :: "pystr \<Rightarrow> bool" where
  "underscores_ok [] = True"
| "underscores_ok [c] = (c \<noteq> 95)"
| "underscores_ok (c # d # r) = (\<not> (c = 95 \<and> d = 95) \<and> underscores_ok (d # r))"

definition digits_value :: "nat \<Rightarrow> pystr \<Rightarrow> nat" where
  "digits_value base ds =
     foldl (\<lambda>acc c. if c = 95 then acc else acc * base + digit_value c) 0 ds"

definition strip_sign :: "pystr \<Rightarrow> bool \<times> pystr" where
  "strip_sign s =
     (case s of
        [] \<Rightarrow> (False, s)
      | c # r \<Rightarrow> if c = 43 then (False, r) else if c = 45 then (True, r) else (False, s))"

definition strip_prefix :: "nat \<Rightarrow> pystr \<Rightarrow> pystr" where
  "strip_prefix base s =
     (case s of
        c # x # r \<Rightarrow>
          if base = 16 \<and> c = 48 \<and> (x = 120 \<or> x = 88)
          then (case r of [] \<Rightarrow> r | u # r' \<Rightarrow> if u = 95 then r' else r)
          else s
      | _ \<Rightarrow> s)"

definition py_int :: "unicode_db \<Rightarrow> pystr \<Rightarrow> nat \<Rightarrow> py_exn + int" where
  "py_int db s base =
     (let s1 = dropWhile ascii_space (map (to_ascii db) s);
          (neg, s2) = strip_sign s1;
          s3 = strip_prefix base s2;
          ds = takeWhile (digit_or_underscore base) s3;
          rest = dropWhile (digit_or_underscore base) s3
      in if ds = [] \<or> hd ds = 95 \<or> \<not> underscores_ok ds
            \<or> dropWhile ascii_space rest \<noteq> []
         then Inl ValueError
         else Inr (if neg then - int (digits_value base ds) else int (digits_value base ds)))"

text \<open>\<^verbatim>\<open>chr(i)\<close>: defined on 0 .. 0x10FFFF, a \<open>ValueError\<close> elsewhere.\<close>

definition py_chr :: "int \<Rightarrow> py_exn + nat" where
  "py_chr i = (if 0 \<le> i \<and> i \<le> 1114111 then Inr (nat i) else Inl ValueError)"

text \<open>\<^verbatim>\<open>str(n)\<close> and the format \<^verbatim>\<open>f"{n:02d}"\<close> for a non-negative integer.\<close>

fun py_str_nat :: "nat \<Rightarrow> pystr" where
  "py_str_nat n = (if n < 10 then [48 + n] else py_str_nat (n div 10) @ [48 + n mod 10])"

definition fmt_02d :: "nat \<Rightarrow> pystr" where
  "fmt_02d n = (if n < 10 then 48 # py_str_nat n else py_str_nat n)"

text \<open>\<^verbatim>\<open>c.isdigit()\<close> on one character.\<close>

definition py_isdigit :: "unicode_db \<Rightarrow> nat \<Rightarrow> bool" where
  "py_isdigit db c = (if c < 128 then 48 \<le> c \<and> c \<le> 57 else u_isdigit db c)"

text \<open>\<^verbatim>\<open>s.replace(old, '')\<close> for a one-character \<open>old\<close>, and \<^verbatim>\<open>s.ljust(width, '0')\<close>.\<close>

definition remove_char :: "nat \<Rightarrow> pystr \<Rightarrow> pystr" where
  "remove_char c s = filter (\<lambda>x. x \<noteq> c) s"

definition ljust0 :: "nat \<Rightarrow> pystr \<Rightarrow> pystr" where
  "ljust0 width s = s @ replicate (width - length s) 48"

section \<open>Value transformers of the form filler\<close>

text \<open>
  \<^verbatim>\<open>handle_email_overflow\<close>: the first result goes to EMAIL_ADDRESS[0] (the remainder),
  the second to EMAIL_ADDRESS[1] (the first 20 characters).
\<close>

definition handle_email_overflow :: "pystr \<Rightarrow> pystr \<times> pystr" where
  "handle_email_overflow email =
     (if email = [] then ([], [])
      else if length email \<le> 20 then ([], email)
      else (drop 20 email, take 20 email))"

text \<open>
  \<^verbatim>\<open>split_ssn\<close>: dashes and blanks are removed, then the text is sliced 3/2/4 by
  position whatever its length (both branches of the source return the same slices; the
  warning is console output only).
\<close>

definition split_ssn :: "pystr \<Rightarrow> pystr \<times> pystr \<times> pystr" where
  "split_ssn ssn =
     (let clean_ssn = remove_char 32 (remove_char 45 ssn)
      in (take 3 clean_ssn, take 2 (drop 3 clean_ssn), take 4 (drop 5 clean_ssn)))"

definition split_phone :: "unicode_db \<Rightarrow> pystr \<Rightarrow> pystr \<times> pystr \<times> pystr" where
  "split_phone db phone =
     (let digits = filter (py_isdigit db) phone;
          clean_phone = (if length digits \<noteq> 10 then take 10 (ljust0 10 digits) else digits)
      in (take 3 clean_phone, take 3 (drop 3 clean_phone), take 4 (drop 6 clean_phone)))"

definition split_zip :: "unicode_db \<Rightarrow> pystr \<Rightarrow> pystr \<times> pystr" where
  "split_zip db zip_code =
     (let clean_zip = filter (py_isdigit db) zip_code
      in if 5 \<le> length clean_zip
         then (take 5 clean_zip, if 5 < length clean_zip then take 4 (drop 5 clean_zip) else [])
         else (ljust0 5 clean_zip, []))"

text \<open>
  \<^verbatim>\<open>split_date\<close>, first as the value it returns when the console takes every line the
  method prints. The body of the \<^verbatim>\<open>try\<close> is \<open>split_date_body\<close>: apart from \<^verbatim>\<open>print\<close>, the
  only call in it that can raise on a string is \<^verbatim>\<open>int(year)\<close>. The handler
  \<^verbatim>\<open>except Exception\<close> of the source turns that exception into the sentinel. The method
  with its three \<^verbatim>\<open>print\<close> calls, each of which may raise, is \<open>split_date_console\<close> below.
\<close>

definition date_sentinel :: "pystr \<times> pystr \<times> pystr" where
  "date_sentinel = (lit ''01'', lit ''01'', lit ''1970'')"

definition split_date_body :: "unicode_db \<Rightarrow> pystr \<Rightarrow> py_exn + (pystr \<times> pystr \<times> pystr)" where
  "split_date_body db date_str =
     (if 47 \<in> set date_str \<or> 45 \<in> set date_str then
        (let parts = (if 47 \<in> set date_str then py_split 47 date_str
                      else py_split 45 date_str)
         in case parts of
              [month, day, year] \<Rightarrow>
                if length year = 2 then
                  bind_exn (py_int db year 10)
                    (\<lambda>n. Inr (zfill 2 month, zfill 2 day,
                              (if 50 < n then lit ''19'' @ year else lit ''20'' @ year)))
                else Inr (zfill 2 month, zfill 2 day, year)
            | _ \<Rightarrow> Inr date_sentinel)
      else Inr date_sentinel)"

definition split_date :: "unicode_db \<Rightarrow> pystr \<Rightarrow> py_exn + (pystr \<times> pystr \<times> pystr)" where
  "split_date db date_str =
     (case split_date_body db date_str of
        Inl e \<Rightarrow> Inr date_sentinel
      | Inr r \<Rightarrow> Inr r)"

text \<open>
  Console output. \<^verbatim>\<open>print\<close> hands its line to standard output and raises when the stream
  refuses it: \<open>UnicodeEncodeError\<close> when the encoder of the stream meets a character it
  cannot encode (a lone surrogate on a UTF-8 stream with the strict error handler, any
  character outside the code page of a narrower stream), \<open>OSError\<close> or \<open>ValueError\<close> when
  the stream is broken or closed. What the stream does is an input of the model: a
  console maps every message to \<open>None\<close> when the line is written and to the exception
  that \<^verbatim>\<open>print\<close> raises otherwise. A message is one of the lines of the source with the
  values it quotes: the two warnings of \<^verbatim>\<open>split_date\<close> and the line of its handler, the
  lines of \<^verbatim>\<open>fill_form\<close>, and the two lines of \<^verbatim>\<open>analyze_field_recursive\<close>.
\<close>

datatype message =
    Unrecognized_date_format pystr
  | Invalid_date_format pystr
  | Error_parsing_date pystr py_exn
  | Filling_form_fields
  | No_AcroForm_found
  | Field_filled pystr pystr
  | Field_not_found pystr
  | Failed_to_fill pystr py_exn
  | Form_filling_summary
  | Successfully_filled nat
  | Failed_to_fill_total nat
  | Error_filling_form py_exn
  | Field_discovered nat pystr pystr nat
  | Error_analyzing_field nat py_exn

type_synonym console = "message \<Rightarrow> py_exn option"

definition py_print :: "console \<Rightarrow> message \<Rightarrow> py_exn + unit" where
  "py_print out msg = (case out msg of None \<Rightarrow> Inr () | Some e \<Rightarrow> Inl e)"

text \<open>
  \<^verbatim>\<open>split_date\<close> with its console output. \<open>split_date_parts\<close> is the statement
  \<^verbatim>\<open>if len(parts) == 3\<close> with its two branches, \<open>split_date_try\<close> is the body of the \<^verbatim>\<open>try\<close>,
  and \<open>split_date_console\<close> is the method: the handler catches every exception of the
  body, also one raised by a \<^verbatim>\<open>print\<close> of the body, and prints a line itself before it
  returns the sentinel. That \<^verbatim>\<open>print\<close> is outside the \<^verbatim>\<open>try\<close>: an exception it raises leaves
  the method.
\<close>

definition split_date_parts ::
  "console \<Rightarrow> unicode_db \<Rightarrow> pystr \<Rightarrow> pystr list \<Rightarrow> py_exn + (pystr \<times> pystr \<times> pystr)" where
  "split_date_parts out db date_str parts =
     (case parts of
        [month, day, year] \<Rightarrow>
          if length year = 2 then
            bind_exn (py_int db year 10)
              (\<lambda>n. Inr (zfill 2 month, zfill 2 day,
                        (if 50 < n then lit ''19'' @ year else lit ''20'' @ year)))
          else Inr (zfill 2 month, zfill 2 day, year)
      | _ \<Rightarrow>
          bind_exn (py_print out (Invalid_date_format date_str)) (\<lambda>u. Inr date_sentinel))"

definition split_date_try ::
  "console \<Rightarrow> unicode_db \<Rightarrow> pystr \<Rightarrow> py_exn + (pystr \<times> pystr \<times> pystr)" where
  "split_date_try out db date_str =
     (if 47 \<in> set date_str then split_date_parts out db date_str (py_split 47 date_str)
      else if 45 \<in> set date_str then split_date_parts out db date_str (py_split 45 date_str)
      else bind_exn (py_print out (Unrecognized_date_format date_str)) (\<lambda>u. Inr date_sentinel))"

definition split_date_console ::
  "console \<Rightarrow> unicode_db \<Rightarrow> pystr \<Rightarrow> py_exn + (pystr \<times> pystr \<times> pystr)" where
  "split_date_console out db date_str =
     (case split_date_try out db date_str of
        Inl e \<Rightarrow>
          bind_exn (py_print out (Error_parsing_date date_str e)) (\<lambda>u. Inr date_sentinel)
      | Inr r \<Rightarrow> Inr r)"

section \<open>The input record and the field mapping\<close>

text \<open>
  The JSON input, typed as the schema of the form data: every key may be missing
  (\<open>None\<close>); strings are strings and election flags are booleans.
\<close>

record address_rec =
  street :: "pystr option"
  apt_unit :: "pystr option"
  city :: "pystr option"
  state :: "pystr option"
  country :: "pystr option"
  zip_code :: "pystr option"

record veteran_info_rec =
  first_name :: "pystr option"
  middle_initial :: "pystr option"
  last_name :: "pystr option"
  date_of_birth :: "pystr option"
  ssn :: "pystr option"
  phone :: "pystr option"
  email :: "pystr option"
  va_file_number :: "pystr option"
  service_number :: "pystr option"
  address :: "address_rec option"

record benefit_election_rec =
  compensation :: "bool option"
  pension :: "bool option"
  survivors_pension_dic :: "bool option"

record signature_info_rec =
  date_signed :: "pystr option"
  attorney_agent_vso_name :: "pystr option"

record input_record =
  veteran_info :: "veteran_info_rec option"
  benefit_election :: "benefit_election_rec option"
  signature_info :: "signature_info_rec option"

text \<open>The empty dictionary \<^verbatim>\<open>{}\<close> that \<^verbatim>\<open>data.get(key, {})\<close> falls back to.\<close>

definition no_address :: address_rec where
  "no_address = \<lparr>street = None, apt_unit = None, city = None, state = None,
                  country = None, zip_code = None\<rparr>"

definition no_benefit_election :: benefit_election_rec where
  "no_benefit_election = \<lparr>compensation = None, pension = None, survivors_pension_dic = None\<rparr>"

definition no_signature_info :: signature_info_rec where
  "no_signature_info = \<lparr>date_signed = None, attorney_agent_vso_name = None\<rparr>"

text \<open>\<^verbatim>\<open>d.get(key, '')\<close>, \<^verbatim>\<open>d.get(key, {})\<close> and \<^verbatim>\<open>d.get(key, False)\<close>.\<close>

definition get_str :: "pystr option \<Rightarrow> pystr" where
  "get_str x = (case x of None \<Rightarrow> [] | Some s \<Rightarrow> s)"

definition get_or :: "'a \<Rightarrow> 'a option \<Rightarrow> 'a" where
  "get_or dflt x = (case x of None \<Rightarrow> dflt | Some v \<Rightarrow> v)"

definition get_flag :: "bool option \<Rightarrow> bool" where
  "get_flag x = (case x of None \<Rightarrow> False | Some b \<Rightarrow> b)"


text \<open>
  A Python dictionary keeps its keys in insertion order and \<^verbatim>\<open>d[k] = v\<close> replaces the
  value of a key that is present in place. It is an association list; a dictionary
  display inserts its items from left to right.
\<close>

type_synonym py_dict = "(pystr \<times> pystr) list"

fun dict_set :: "pystr \<Rightarrow> pystr \<Rightarrow> py_dict \<Rightarrow> py_dict" where
  "dict_set k v [] = [(k, v)]"
| "dict_set k v ((k', v') # m) =
     (if k' = k then (k, v) # m else (k', v') # dict_set k v m)"

definition dict_display :: "(pystr \<times> pystr) list \<Rightarrow> py_dict" where
  "dict_display items = foldl (\<lambda>m (k, v). dict_set k v m) [] items"

definition dict_get :: "py_dict \<Rightarrow> pystr \<Rightarrow> pystr option" where
  "dict_get m k = map_of m k"

definition dict_keys :: "py_dict \<Rightarrow> pystr list" where
  "dict_keys m = map fst m"

text \<open>The wall-clock date that \<^verbatim>\<open>datetime.now()\<close> reads: an input of the model.\<close>

record clock_date =
  year :: nat
  month :: nat
  day :: nat

text \<open>
  \<^verbatim>\<open>create_field_mapping\<close>. \<^verbatim>\<open>data['veteran_info']\<close> raises \<open>KeyError\<close> when the key is
  missing; every other access is a \<^verbatim>\<open>get\<close> with a default. The dictionary display is
  followed by the three conditional checkbox assignments.
\<close>

definition create_field_mapping ::
  "unicode_db \<Rightarrow> clock_date \<Rightarrow> input_record \<Rightarrow> py_exn + py_dict" where
  "create_field_mapping db today data =
     (case veteran_info data of
        None \<Rightarrow> Inl KeyError
      | Some vi \<Rightarrow>
          (let be = get_or no_benefit_election (benefit_election data);
               si = get_or no_signature_info (signature_info data);
               (email_0, email_1) = handle_email_overflow (get_str (email vi));
               ssn_v = get_str (ssn vi);
               (ssn_1, ssn_2, ssn_3) = (if ssn_v \<noteq> [] then split_ssn ssn_v else ([], [], []));
               phone_v = get_str (phone vi);
               (phone_1, phone_2, phone_3) =
                 (if phone_v \<noteq> [] then split_phone db phone_v else ([], [], []));
               dob = get_str (date_of_birth vi)
           in bind_exn (if dob \<noteq> [] then split_date db dob else Inr ([], [], []))
                (\<lambda>(dob_month, dob_day, dob_year).
           let sig_date = get_str (date_signed si)
           in bind_exn (if sig_date \<noteq> [] then split_date db sig_date
                        else Inr (fmt_02d (month today), fmt_02d (day today),
                                  py_str_nat (year today)))
                (\<lambda>(sig_month, sig_day, sig_year).
           let addr = get_or no_address (address vi);
               zip_v = get_str (zip_code addr);
               (zip_5, zip_4) = (if zip_v \<noteq> [] then split_zip db zip_v else ([], []));
               field_mapping = dict_display
                 [(lit ''F[0].Page_1[0].Veterans_First_Name[0]'', get_str (first_name vi)),
                  (lit ''F[0].Page_1[0].Veterans_Middle_Initial1[0]'', get_str (middle_initial vi)),
                  (lit ''F[0].Page_1[0].Veterans_Last_Name[0]'', get_str (last_name vi)),
                  (lit ''F[0].Page_1[0].Veterans_Social_SecurityNumber_FirstThreeNumbers[0]'', ssn_1),
                  (lit ''F[0].Page_1[0].Veterans_Social_SecurityNumber_SecondTwoNumbers[0]'', ssn_2),
                  (lit ''F[0].Page_1[0].VeteransSocialSecurityNumber_LastFourNumbers[0]'', ssn_3),
                  (lit ''F[0].Page_1[0].DOB_Month[0]'', dob_month),
                  (lit ''F[0].Page_1[0].DOB_Day[0]'', dob_day),
                  (lit ''F[0].Page_1[0].DOB_Year[0]'', dob_year),
                  (lit ''F[0].Page_1[0].EMAIL_ADDRESS[0]'', email_0),
                  (lit ''F[0].Page_1[0].EMAIL_ADDRESS[1]'', email_1),
                  (lit ''F[0].Page_1[0].Telephone_Number_FirstThreeNumbers[0]'', phone_1),
                  (lit ''F[0].Page_1[0].Telephone_Number_SecondThreeNumbers[0]'', phone_2),
                  (lit ''F[0].Page_1[0].Telephone_Number_LastFourNumbers[0]'', phone_3),
                  (lit ''F[0].Page_1[0].Mailing_Address_NumberAndStreet[0]'', get_str (street addr)),
                  (lit ''F[0].Page_1[0].Mailing_Address_ApartmentOrUnitNumber[0]'',
                     get_str (apt_unit addr)),
                  (lit ''F[0].Page_1[0].MailingAddress_City[0]'', get_str (city addr)),
                  (lit ''F[0].Page_1[0].MailingAddress_StateOrProvince[0]'', get_str (state addr)),
                  (lit ''F[0].Page_1[0].MailingAddress_Country[0]'', get_str (country addr)),
                  (lit ''F[0].Page_1[0].MailingAddress_ZIPOrPostalCode_FirstFiveNumbers[0]'', zip_5),
                  (lit ''F[0].Page_1[0].MailingAddress_ZIPOrPostalCode_LastFourNumbers[0]'', zip_4),
                  (lit ''F[0].Page_1[0].VA_File_Number[0]'', get_str (va_file_number vi)),
                  (lit ''F[0].Page_1[0].Veterans_Service_Number[0]'', get_str (service_number vi)),
                  (lit ''F[0].#subform[1].Date_Signed_Month[0]'', sig_month),
                  (lit ''F[0].#subform[1].Date_Signed_Day[0]'', sig_day),
                  (lit ''F[0].#subform[1].Date_Signed_Year[0]'', sig_year),
                  (lit ''F[0].#subform[1].Name_Of_Attorney_Agent_Or_Veterans_Service_Organization_VS[0]'',
                     get_str (attorney_agent_vso_name si))];
               m1 = (if get_flag (compensation be)
                     then dict_set (lit ''F[0].#subform[1].COMPENSATION[0]'') (lit ''/1'') field_mapping
                     else field_mapping);
               m2 = (if get_flag (pension be)
                     then dict_set (lit ''F[0].#subform[1].PENSION[0]'') (lit ''/1'') m1
                     else m1);
               m3 = (if get_flag (survivors_pension_dic be)
                     then dict_set
                       (lit ''F[0].#subform[1].SURVIVORS_PENSION_AND_OR_DEPENDENCY_AND_INDEMNITY_COMPENSATION_DIC[0]'')
                       (lit ''/1'') m2
                     else m2)
           in Inr m3))))"

section \<open>Field names, the field tree and the form writer\<close>

text \<open>
  \<^verbatim>\<open>decode_unicode_field_name\<close> (the same text in the filler, the enhanced discovery and
  the value inspector). The argument is the text of the name token. The loop over
  \<^verbatim>\<open>range(0, len(hex_content), 4)\<close> visits the slices \<open>hex_chunks\<close>; \<^verbatim>\<open>int(hex_char, 16)\<close>
  and \<^verbatim>\<open>chr(char_code)\<close> may raise, and the bare \<^verbatim>\<open>except\<close> returns the token as it came.
\<close>

definition hex_chunks :: "pystr \<Rightarrow> pystr list" where
  "hex_chunks hex_content =
     map (\<lambda>k. take 4 (drop (4 * k) hex_content)) [0 ..< (length hex_content + 3) div 4]"

fun decode_units :: "unicode_db \<Rightarrow> pystr list \<Rightarrow> pystr \<Rightarrow> py_exn + pystr" where
  "decode_units db [] decoded = Inr decoded"
| "decode_units db (hex_char # rest) decoded =
     (case py_int db hex_char 16 of
        Inl e \<Rightarrow> Inl e
      | Inr char_code \<Rightarrow>
          (case py_chr char_code of
             Inl e \<Rightarrow> Inl e
           | Inr ch \<Rightarrow> decode_units db rest (decoded @ [ch])))"

definition decode_unicode_field_name :: "unicode_db \<Rightarrow> pystr \<Rightarrow> py_exn + pystr" where
  "decode_unicode_field_name db field_str =
     (if startswith field_str (lit ''<FEFF'') \<and> endswith field_str (lit ''>'') then
        (case decode_units db (hex_chunks (slice_to_last 5 field_str)) [] of
           Inl e \<Rightarrow> Inr field_str
         | Inr decoded \<Rightarrow> Inr decoded)
      else if startswith field_str (lit ''('') \<and> endswith field_str (lit '')'') then
        Inr (slice_to_last 1 field_str)
      else Inr field_str)"

text \<open>
  A node of the AcroForm field tree, with the attributes the scripts read. An attribute
  that is absent is \<open>None\<close>; a present one is the text \<^verbatim>\<open>str()\<close> gives for it (names
  carry their leading slash, as in \<^verbatim>\<open>'/Btn'\<close>). \<open>Kids\<close> is the list of children, empty
  when the attribute is absent: the scripts only test it for truth and iterate it.
\<close>

datatype field =
  Field (T: "pystr option") (FT: "pystr option") (Ff: "pystr option") (DV: "pystr option")
        (V: "pystr option") (MaxLen: "pystr option") (AS: "pystr option")
        (Opt: "pystr list option") (Kids: "field list")

text \<open>Truth value of an attribute: absent and empty are false.\<close>

definition truthy :: "'a list option \<Rightarrow> bool" where
  "truthy x = (case x of None \<Rightarrow> False | Some s \<Rightarrow> s \<noteq> [])"

definition join_path :: "pystr \<Rightarrow> pystr \<Rightarrow> pystr" where
  "join_path parent_path field_name =
     (if parent_path \<noteq> [] then parent_path @ lit ''.'' @ field_name else field_name)"

text \<open>
  The assignment of the value: a button gets \<^verbatim>\<open>PdfName(value.replace('/', ''))\<close> in both
  \<open>V\<close> and \<open>AS\<close>, any other field gets the value in \<open>V\<close>.
\<close>

definition pdf_name :: "pystr \<Rightarrow> pystr" where
  "pdf_name n = 47 # n"

definition set_field_value :: "field \<Rightarrow> pystr \<Rightarrow> field" where
  "set_field_value f val =
     (case f of Field t ft ff dv v ml as opt kids \<Rightarrow>
        if ft = Some (lit ''/Btn'')
        then Field t ft ff dv (Some (pdf_name (remove_char 47 val))) ml
               (Some (pdf_name (remove_char 47 val))) opt kids
        else Field t ft ff dv (Some val) ml as opt kids)"

text \<open>
  \<^verbatim>\<open>find_and_fill_field\<close>: the loop over the siblings with its early \<^verbatim>\<open>return True\<close>.
  The tree is mutated in place in the source; the model returns it beside the result.
  A sibling that is passed over stays as it is and the loop goes on with the rest.
\<close>

fun find_and_fill_field ::
  "unicode_db \<Rightarrow> field list \<Rightarrow> pystr \<Rightarrow> pystr \<Rightarrow> pystr \<Rightarrow> bool \<times> field list" where
  "find_and_fill_field db [] target_field_name val parent_path = (False, [])"
| "find_and_fill_field db (Field t ft ff dv v ml as opt kids # rest) target_field_name val parent_path =
     (if \<not> truthy t then
        apsnd ((#) (Field t ft ff dv v ml as opt kids))
          (find_and_fill_field db rest target_field_name val parent_path)
      else
        (case decode_unicode_field_name db (get_str t) of
           Inl e \<Rightarrow>
             apsnd ((#) (Field t ft ff dv v ml as opt kids))
               (find_and_fill_field db rest target_field_name val parent_path)
         | Inr field_name \<Rightarrow>
             (let full_path = join_path parent_path field_name
              in if full_path = target_field_name then
                   (True, set_field_value (Field t ft ff dv v ml as opt kids) val # rest)
                 else if kids \<noteq> [] then
                   (case find_and_fill_field db kids target_field_name val full_path of
                      (found, kids') \<Rightarrow>
                        if found then (True, Field t ft ff dv v ml as opt kids' # rest)
                        else apsnd ((#) (Field t ft ff dv v ml as opt kids'))
                               (find_and_fill_field db rest target_field_name val parent_path))
                 else
                   apsnd ((#) (Field t ft ff dv v ml as opt kids))
                     (find_and_fill_field db rest target_field_name val parent_path))))"



record fill_state =
  form_fields :: "field list option"
  filled_count :: nat
  failed_count :: nat
  printed :: "message list"

definition print_line :: "console \<Rightarrow> message \<Rightarrow> fill_state \<Rightarrow> py_exn + fill_state" where
  "print_line out msg st =
     (case out msg of
        None \<Rightarrow> Inr (st\<lparr>printed := printed st @ [msg]\<rparr>)
      | Some e \<Rightarrow> Inl e)"

text \<open>
  One entry with a non-empty value. \<open>fill_entry_try\<close> is the body of the inner \<^verbatim>\<open>try\<close>:
  iterating an absent \<open>Fields\<close> raises \<open>TypeError\<close> inside the call; otherwise the write
  is applied to the tree, then the line is printed, then the counter is raised. An
  exception of the \<^verbatim>\<open>print\<close> comes after the write and leaves it in the tree.
  \<open>fill_entry\<close> adds the handler of the entry, whose \<^verbatim>\<open>print\<close> is outside the inner \<^verbatim>\<open>try\<close>.
\<close>

definition fill_entry_try ::
  "console \<Rightarrow> unicode_db \<Rightarrow> pystr \<Rightarrow> pystr \<Rightarrow> fill_state \<Rightarrow> py_exn option \<times> fill_state" where
  "fill_entry_try out db field_name field_value st =
     (case form_fields st of
        None \<Rightarrow> (Some TypeError, st)
      | Some fs \<Rightarrow>
          (case find_and_fill_field db fs field_name field_value [] of
             (field_found, fs') \<Rightarrow>
               (let st1 = st\<lparr>form_fields := Some fs'\<rparr>
                in if field_found then
                     (case print_line out (Field_filled field_name field_value) st1 of
                        Inl e \<Rightarrow> (Some e, st1)
                      | Inr st2 \<Rightarrow> (None, st2\<lparr>filled_count := filled_count st2 + 1\<rparr>))
                   else
                     (case print_line out (Field_not_found field_name) st1 of
                        Inl e \<Rightarrow> (Some e, st1)
                      | Inr st2 \<Rightarrow> (None, st2\<lparr>failed_count := failed_count st2 + 1\<rparr>)))))"

definition fill_entry ::
  "console \<Rightarrow> unicode_db \<Rightarrow> pystr \<Rightarrow> pystr \<Rightarrow> fill_state \<Rightarrow> py_exn option \<times> fill_state" where
  "fill_entry out db field_name field_value st =
     (case fill_entry_try out db field_name field_value st of
        (None, st1) \<Rightarrow> (None, st1)
      | (Some e, st1) \<Rightarrow>
          (case print_line out (Failed_to_fill field_name e) st1 of
             Inl e' \<Rightarrow> (Some e', st1)
           | Inr st2 \<Rightarrow> (None, st2\<lparr>failed_count := failed_count st2 + 1\<rparr>)))"

text \<open>
  The loop over \<^verbatim>\<open>field_mapping.items()\<close>: an entry with an empty value is passed over;
  an exception that leaves the handler of an entry leaves the loop.
\<close>

fun fill_loop ::
  "console \<Rightarrow> unicode_db \<Rightarrow> py_dict \<Rightarrow> fill_state \<Rightarrow> py_exn option \<times> fill_state" where
  "fill_loop out db [] st = (None, st)"
| "fill_loop out db ((field_name, field_value) # entries) st =
     (if field_value \<noteq> [] then
        (case fill_entry out db field_name field_value st of
           (Some e, st1) \<Rightarrow> (Some e, st1)
         | (None, st1) \<Rightarrow> fill_loop out db entries st1)
      else fill_loop out db entries st)"




section \<open>Field discovery\<close>

text \<open>
  \<^verbatim>\<open>analyze_field_recursive\<close> of the enhanced discovery. \<open>fields_info\<close> is the list the
  calls append to; an entry holds the keys of the dictionary of the source. A node
  without a name gets the name \<^verbatim>\<open>unnamed_field_\<close> followed by the number of entries made so
  far. The entry is appended before the line is printed, and the button type and the
  options are stored in it after the line. The handler catches every exception of the
  body, also one that leaves the call for a child, and its \<^verbatim>\<open>print\<close> is outside the \<^verbatim>\<open>try\<close>.
  \<open>analyze_fields\<close> is the loop that calls the function for each field of a list in turn
  (the children of a node, and the top-level fields in \<^verbatim>\<open>discover_pdf_fields_enhanced\<close>).
  The result is the exception that leaves the call, if any, beside the list.
\<close>

record field_info =
  info_level :: nat
  info_parent :: pystr
  info_field_name :: pystr
  info_full_path :: pystr
  info_field_type :: pystr
  info_field_flags :: pystr
  info_default_value :: pystr
  info_current_value :: pystr
  info_max_length :: pystr
  info_has_children :: bool
  info_child_count :: nat
  info_button_type :: "pystr option"
  info_options :: "pystr list option"

definition str_or :: "pystr \<Rightarrow> pystr option \<Rightarrow> pystr" where
  "str_or dflt x = (if truthy x then get_str x else dflt)"

definition typed_info :: "field \<Rightarrow> field_info \<Rightarrow> field_info" where
  "typed_info f info =
     (if FT f = Some (lit ''/Btn'') then
        (if Kids f \<noteq> []
         then info\<lparr>info_button_type := Some (lit ''Radio Button Group''), info_options := Some []\<rparr>
         else info\<lparr>info_button_type := Some (lit ''Checkbox'')\<rparr>)
      else if FT f = Some (lit ''/Ch'') then
        (if truthy (Opt f)
         then info\<lparr>info_field_type := lit ''Choice Field'', info_options := Opt f\<rparr>
         else info\<lparr>info_field_type := lit ''Choice Field''\<rparr>)
      else info)"

definition analyze_handler ::
  "console \<Rightarrow> nat \<Rightarrow> py_exn \<Rightarrow> field_info list \<Rightarrow> py_exn option \<times> field_info list" where
  "analyze_handler out level e fields_info =
     (case out (Error_analyzing_field level e) of
        Some e' \<Rightarrow> (Some e', fields_info)
      | None \<Rightarrow> (None, fields_info))"

fun analyze_field_recursive ::
  "console \<Rightarrow> unicode_db \<Rightarrow> field \<Rightarrow> field_info list \<Rightarrow> nat \<Rightarrow> pystr \<Rightarrow>
   py_exn option \<times> field_info list"
and analyze_fields ::
  "console \<Rightarrow> unicode_db \<Rightarrow> field list \<Rightarrow> field_info list \<Rightarrow> nat \<Rightarrow> pystr \<Rightarrow>
   py_exn option \<times> field_info list" where
  "analyze_field_recursive out db (Field t ft ff dv v ml as opt kids) fields_info level parent_name =
     (case (if truthy t then decode_unicode_field_name db (get_str t)
            else Inr (lit ''unnamed_field_'' @ py_str_nat (length fields_info))) of
        Inl e \<Rightarrow> analyze_handler out level e fields_info
      | Inr field_name \<Rightarrow>
          (let full_name = join_path parent_name field_name;
               field_info =
                 \<lparr>info_level = level, info_parent = parent_name, info_field_name = field_name,
                  info_full_path = full_name, info_field_type = str_or (lit ''Unknown'') ft,
                  info_field_flags = str_or (lit ''None'') ff,
                  info_default_value = str_or [] dv, info_current_value = str_or [] v,
                  info_max_length = str_or (lit ''No limit'') ml,
                  info_has_children = (kids \<noteq> []), info_child_count = length kids,
                  info_button_type = None, info_options = None\<rparr>
           in case out (Field_discovered level full_name (info_field_type field_info)
                          (info_child_count field_info)) of
                Some e \<Rightarrow> analyze_handler out level e (fields_info @ [field_info])
              | None \<Rightarrow>
                  (let listed = fields_info
                         @ [typed_info (Field t ft ff dv v ml as opt kids) field_info]
                   in if kids \<noteq> [] then
                        (case analyze_fields out db kids listed (level + 1) full_name of
                           (Some e, listed') \<Rightarrow> analyze_handler out level e listed'
                         | (None, listed') \<Rightarrow> (None, listed'))
                      else (None, listed))))"
| "analyze_fields out db [] fields_info level parent_name = (None, fields_info)"
| "analyze_fields out db (child # rest) fields_info level parent_name =
     (case analyze_field_recursive out db child fields_info level parent_name of
        (Some e, listed) \<Rightarrow> (Some e, listed)
      | (None, listed) \<Rightarrow> analyze_fields out db rest listed level parent_name)"

section \<open>Concrete data for instances\<close>

text \<open>
  The Unicode tables restricted to Latin-1: beyond ASCII, the white space is U+0085 and
  U+00A0, no character is a decimal digit, and the superscripts one, two and three are
  digits for \<^verbatim>\<open>str.isdigit\<close>.
\<close>

definition latin1_db :: unicode_db where
  "latin1_db = \<lparr>u_isspace = (\<lambda>c. c = 133 \<or> c = 160), u_decimal = (\<lambda>c. None),
                 u_isdigit = (\<lambda>c. c = 178 \<or> c = 179 \<or> c = 185)\<rparr>"

text \<open>
  A UTF-8 standard output with the strict error handler, the default of CPython on a
  UTF-8 locale: it encodes every code point but the surrogates U+D800 to U+DFFF. The
  fixed words of a message and the numbers hold none, and the text of an exception
  quotes a string through \<^verbatim>\<open>repr\<close>, which escapes them; so a message is refused exactly
  when a string it quotes holds a surrogate.
\<close>

definition surrogate :: "nat \<Rightarrow> bool" where
  "surrogate c = (55296 \<le> c \<and> c \<le> 57343)"

fun quoted :: "message \<Rightarrow> pystr" where
  "quoted (Unrecognized_date_format s) = s"
| "quoted (Invalid_date_format s) = s"
| "quoted (Error_parsing_date s e) = s"
| "quoted (Field_filled field_name field_value) = field_name @ field_value"
| "quoted (Field_not_found field_name) = field_name"
| "quoted (Failed_to_fill field_name e) = field_name"
| "quoted (Field_discovered level full_name field_type child_count) = full_name @ field_type"
| "quoted msg = []"

definition utf8_console :: console where
  "utf8_console msg = (if list_ex surrogate (quoted msg) then Some UnicodeEncodeError else None)"

section \<open>Notions used in the statements about dates\<close>

text \<open>
  The parts the method looks at: those of the split at \<^verbatim>\<open>'/'\<close> when the string holds a
  \<^verbatim>\<open>'/'\<close>, otherwise those of the split at \<^verbatim>\<open>'-'\<close> (the string itself when it holds
  neither). The warning the method prints when they are not three. A console accepts the
  lines about a date string when it takes the two warnings and the line of the handler
  for the \<open>ValueError\<close> of \<^verbatim>\<open>int\<close>.
\<close>

definition date_parts :: "pystr \<Rightarrow> pystr list" where
  "date_parts s = (if 47 \<in> set s then py_split 47 s else py_split 45 s)"

definition date_warning :: "pystr \<Rightarrow> message" where
  "date_warning s =
     (if 47 \<in> set s \<or> 45 \<in> set s then Invalid_date_format s else Unrecognized_date_format s)"

definition console_accepts :: "console \<Rightarrow> pystr \<Rightarrow> bool" where
  "console_accepts out s =
     (out (Unrecognized_date_format s) = None \<and> out (Invalid_date_format s) = None
      \<and> out (Error_parsing_date s ValueError) = None)"

section \<open>Notions used in the statements about the field mapping\<close>

text \<open>The keys of the dictionary display of \<open>create_field_mapping\<close>, in its order.\<close>

definition text_field_keys :: "pystr list" where
  "text_field_keys =
     [lit ''F[0].Page_1[0].Veterans_First_Name[0]'',
      lit ''F[0].Page_1[0].Veterans_Middle_Initial1[0]'',
      lit ''F[0].Page_1[0].Veterans_Last_Name[0]'',
      lit ''F[0].Page_1[0].Veterans_Social_SecurityNumber_FirstThreeNumbers[0]'',
      lit ''F[0].Page_1[0].Veterans_Social_SecurityNumber_SecondTwoNumbers[0]'',
      lit ''F[0].Page_1[0].VeteransSocialSecurityNumber_LastFourNumbers[0]'',
      lit ''F[0].Page_1[0].DOB_Month[0]'',
      lit ''F[0].Page_1[0].DOB_Day[0]'',
      lit ''F[0].Page_1[0].DOB_Year[0]'',
      lit ''F[0].Page_1[0].EMAIL_ADDRESS[0]'',
      lit ''F[0].Page_1[0].EMAIL_ADDRESS[1]'',
      lit ''F[0].Page_1[0].Telephone_Number_FirstThreeNumbers[0]'',
      lit ''F[0].Page_1[0].Telephone_Number_SecondThreeNumbers[0]'',
      lit ''F[0].Page_1[0].Telephone_Number_LastFourNumbers[0]'',
      lit ''F[0].Page_1[0].Mailing_Address_NumberAndStreet[0]'',
      lit ''F[0].Page_1[0].Mailing_Address_ApartmentOrUnitNumber[0]'',
      lit ''F[0].Page_1[0].MailingAddress_City[0]'',
      lit ''F[0].Page_1[0].MailingAddress_StateOrProvince[0]'',
      lit ''F[0].Page_1[0].MailingAddress_Country[0]'',
      lit ''F[0].Page_1[0].MailingAddress_ZIPOrPostalCode_FirstFiveNumbers[0]'',
      lit ''F[0].Page_1[0].MailingAddress_ZIPOrPostalCode_LastFourNumbers[0]'',
      lit ''F[0].Page_1[0].VA_File_Number[0]'',
      lit ''F[0].Page_1[0].Veterans_Service_Number[0]'',
      lit ''F[0].#subform[1].Date_Signed_Month[0]'',
      lit ''F[0].#subform[1].Date_Signed_Day[0]'',
      lit ''F[0].#subform[1].Date_Signed_Year[0]'',
      lit ''F[0].#subform[1].Name_Of_Attorney_Agent_Or_Veterans_Service_Organization_VS[0]'']"

text \<open>
  The three election flags of \<^verbatim>\<open>benefit_election\<close>, the checkbox path of each, and what
  it means for a flag of the input record to be true.
\<close>

datatype election = Compensation | Pension | Survivors_pension_dic

fun election_key :: "election \<Rightarrow> pystr" where
  "election_key Compensation = lit ''F[0].#subform[1].COMPENSATION[0]''"
| "election_key Pension = lit ''F[0].#subform[1].PENSION[0]''"
| "election_key Survivors_pension_dic =
     lit ''F[0].#subform[1].SURVIVORS_PENSION_AND_OR_DEPENDENCY_AND_INDEMNITY_COMPENSATION_DIC[0]''"

fun election_flag :: "benefit_election_rec \<Rightarrow> election \<Rightarrow> bool option" where
  "election_flag be Compensation = compensation be"
| "election_flag be Pension = pension be"
| "election_flag be Survivors_pension_dic = survivors_pension_dic be"

definition flag_is_true :: "input_record \<Rightarrow> election \<Rightarrow> bool" where
  "flag_is_true data f =
     (case benefit_election data of
        None \<Rightarrow> False
      | Some be \<Rightarrow> election_flag be f = Some True)"

text \<open>The entries the checkbox assignments append, in the order of the source.\<close>

definition checkbox_items :: "benefit_election_rec \<Rightarrow> py_dict" where
  "checkbox_items be =
     (if get_flag (compensation be) then [(election_key Compensation, lit ''/1'')] else []) @
     (if get_flag (pension be) then [(election_key Pension, lit ''/1'')] else []) @
     (if get_flag (survivors_pension_dic be)
      then [(election_key Survivors_pension_dic, lit ''/1'')] else [])"

definition text_values ::
  "unicode_db \<Rightarrow> veteran_info_rec \<Rightarrow> signature_info_rec \<Rightarrow>
   pystr \<times> pystr \<times> pystr \<Rightarrow> pystr \<times> pystr \<times> pystr \<Rightarrow> pystr list" where
  "text_values db vi si dob sig =
     (let addr = get_or no_address (address vi);
          em = handle_email_overflow (get_str (email vi));
          sn = (if get_str (ssn vi) \<noteq> [] then split_ssn (get_str (ssn vi)) else ([], [], []));
          ph = (if get_str (phone vi) \<noteq> [] then split_phone db (get_str (phone vi))
                else ([], [], []));
          zp = (if get_str (zip_code addr) \<noteq> [] then split_zip db (get_str (zip_code addr))
                else ([], []))
      in [get_str (first_name vi), get_str (middle_initial vi), get_str (last_name vi),
          fst sn, fst (snd sn), snd (snd sn),
          fst dob, fst (snd dob), snd (snd dob),
          fst em, snd em,
          fst ph, fst (snd ph), snd (snd ph),
          get_str (street addr), get_str (apt_unit addr), get_str (city addr),
          get_str (state addr), get_str (country addr),
          fst zp, snd zp,
          get_str (va_file_number vi), get_str (service_number vi),
          fst sig, fst (snd sig), snd (snd sig),
          get_str (attorney_agent_vso_name si)])"

text \<open>
  The sub-records after their \<^verbatim>\<open>get\<close> defaults, the parts of the two dates, and the values
  of the dictionary display in the order of \<open>text_field_keys\<close>.
\<close>

definition signature_of :: "input_record \<Rightarrow> signature_info_rec" where
  "signature_of d = get_or no_signature_info (signature_info d)"

definition election_of :: "input_record \<Rightarrow> benefit_election_rec" where
  "election_of d = get_or no_benefit_election (benefit_election d)"

definition birth_parts :: "unicode_db \<Rightarrow> veteran_info_rec \<Rightarrow> pystr \<times> pystr \<times> pystr" where
  "birth_parts db vi =
     (if get_str (date_of_birth vi) \<noteq> []
      then (case split_date db (get_str (date_of_birth vi)) of Inr r \<Rightarrow> r | Inl e \<Rightarrow> ([], [], []))
      else ([], [], []))"

definition signed_parts :: "unicode_db \<Rightarrow> clock_date \<Rightarrow> input_record \<Rightarrow> pystr \<times> pystr \<times> pystr" where
  "signed_parts db today d =
     (if get_str (date_signed (signature_of d)) \<noteq> []
      then (case split_date db (get_str (date_signed (signature_of d))) of
              Inr r \<Rightarrow> r | Inl e \<Rightarrow> ([], [], []))
      else (fmt_02d (month today), fmt_02d (day today), py_str_nat (year today)))"




text \<open>An input record, two dates and the mapping the filler builds for them.\<close>

definition sample_veteran :: veteran_info_rec where
  "sample_veteran =
     \<lparr>first_name = Some (lit ''John''), middle_initial = None, last_name = Some (lit ''Doe''),
      date_of_birth = Some (lit ''03/04/1999''), ssn = None, phone = None, email = None,
      va_file_number = None, service_number = None, address = None\<rparr>"

definition sample_record :: input_record where
  "sample_record =
     \<lparr>veteran_info = Some sample_veteran,
      benefit_election =
        Some \<lparr>compensation = Some True, pension = Some False, survivors_pension_dic = None\<rparr>,
      signature_info = None\<rparr>"

definition sample_today :: clock_date where
  "sample_today = \<lparr>year = 2026, month = 11, day = 4\<rparr>"


definition sample_mapping :: py_dict where
  "sample_mapping =
     zip text_field_keys
       [lit ''John'', [], lit ''Doe'', [], [], [], lit ''03'', lit ''04'', lit ''1999'',
        [], [], [], [], [], [], [], [], [], [], [], [], [], [],
        lit ''11'', lit ''04'', lit ''2026'', []]
     @ [(election_key Compensation, lit ''/1'')]"

section \<open>Notions used in the statements about field names\<close>

text \<open>
  A token is wrapped when it starts with \<^verbatim>\<open><FEFF\<close> and ends with \<^verbatim>\<open>>\<close>; its payload is what
  \<^verbatim>\<open>field_str[5:-1]\<close> keeps. A payload is well-formed hexadecimal when it is a sequence of
  groups of four hexadecimal digits, one group per UTF-16 unit. \<open>chunk_code\<close> is the body
  of the loop for one slice: \<^verbatim>\<open>chr(int(hex_char, 16))\<close>. \<open>int16_ascii\<close> are the ASCII
  characters that occur in some string \<^verbatim>\<open>int(s, 16)\<close> accepts (hexadecimal digits, white
  space, a sign, an underscore and the \<^verbatim>\<open>x\<close> of the prefix); \<open>int16_char\<close> are the characters
  that \<^verbatim>\<open>int\<close> reads as one of them.
\<close>

definition bom_wrapped :: "pystr \<Rightarrow> bool" where
  "bom_wrapped raw = (startswith raw (lit ''<FEFF'') \<and> endswith raw (lit ''>''))"

definition hex_payload :: "pystr \<Rightarrow> pystr" where
  "hex_payload raw = slice_to_last 5 raw"

definition is_hex_digit :: "nat \<Rightarrow> bool" where
  "is_hex_digit c = ((48 \<le> c \<and> c \<le> 57) \<or> (65 \<le> c \<and> c \<le> 70) \<or> (97 \<le> c \<and> c \<le> 102))"

definition well_formed_hex :: "pystr \<Rightarrow> bool" where
  "well_formed_hex payload = (length payload mod 4 = 0 \<and> list_all is_hex_digit payload)"

definition int16_ascii :: "nat \<Rightarrow> bool" where
  "int16_ascii a =
     (is_hex_digit a \<or> ascii_space a \<or> a = 43 \<or> a = 45 \<or> a = 95 \<or> a = 120 \<or> a = 88)"

definition int16_char :: "unicode_db \<Rightarrow> nat \<Rightarrow> bool" where
  "int16_char db c = int16_ascii (to_ascii db c)"

definition chunk_code :: "unicode_db \<Rightarrow> pystr \<Rightarrow> py_exn + nat" where
  "chunk_code db hex_char = bind_exn (py_int db hex_char 16) py_chr"

section \<open>Notions used in the statements about the field tree\<close>











section \<open>Verified properties\<close>

subsection \<open>Literals\<close>

lemma lit_eq_iff [simp]: "lit a = lit b \<longleftrightarrow> a = b"
  by (simp add: lit_def inj_map_eq_map [OF inj_of_char])

lemma lit_Nil [simp]: "lit [] = []"
  by (simp add: lit_def)

lemma lit_Cons: "lit (c # cs) = of_char c # lit cs"
  by (simp add: lit_def)

lemma length_lit [simp]: "length (lit s) = length s"
  by (simp add: lit_def)

subsection \<open>The e-mail overflow split\<close>

text \<open>
  Claim C2. For every string, \<open>handle_email_overflow\<close> returns the pair (remainder,
  first chunk) with the reversed assignment: up to 20 characters the remainder is empty
  and the whole string is the chunk; beyond 20 characters the chunk is the first 20
  characters and the remainder is the rest. The two examples of the specification are
  instances.
\<close>

theorem handle_email_overflow_reversed_split:
  "handle_email_overflow s = (if length s \<le> 20 then ([], s) else (drop 20 s, take 20 s))
   \<and> handle_email_overflow (lit ''short@x.com'') = ([], lit ''short@x.com'')
   \<and> handle_email_overflow (replicate 25 97) = (replicate 5 97, replicate 20 97)"
proof -
  have general: "handle_email_overflow t = (if length t \<le> 20 then ([], t) else (drop 20 t, take 20 t))"
    for t
    by (simp add: handle_email_overflow_def)
  have short: "handle_email_overflow (lit ''short@x.com'') = ([], lit ''short@x.com'')"
    by (simp add: general)
  have long: "handle_email_overflow (replicate 25 97) = (replicate 5 97, replicate 20 97)"
    by (simp add: general min_def)
  from general short long show ?thesis by blast
qed

subsection \<open>Splitting dates\<close>

lemma py_split_not_Nil [simp]: "py_split sep s \<noteq> []"
  by (induction s) (auto split: list.splits)

lemma py_split_no_sep: "sep \<notin> set s \<Longrightarrow> py_split sep s = [s]"
  by (induction s) auto

lemma py_split_append: "sep \<notin> set a \<Longrightarrow> py_split sep (a @ sep # b) = a # py_split sep b"
  by (induction a) auto

lemma py_split_three:
  "sep \<notin> set m \<Longrightarrow> sep \<notin> set d \<Longrightarrow> sep \<notin> set y \<Longrightarrow>
   py_split sep (m @ sep # d @ sep # y) = [m, d, y]"
  by (simp add: py_split_append py_split_no_sep)

lemma py_int_two_digits:
  assumes "48 \<le> a" "a \<le> 57" "48 \<le> b" "b \<le> 57"
  shows "py_int db [a, b] 10 = Inr (int (10 * (a - 48) + (b - 48)))"
proof -
  have "digits_value 10 [a, b] = 10 * (a - 48) + (b - 48)"
    using assms by (simp add: digits_value_def digit_value_def)
  moreover have "py_int db [a, b] 10 = Inr (int (digits_value 10 [a, b]))"
    using assms
    by (auto simp add: py_int_def to_ascii_def ascii_space_def strip_sign_def strip_prefix_def
        digit_or_underscore_def digit_value_def Let_def simp del: of_nat_add of_nat_mult)
  ultimately show ?thesis by simp
qed

lemma split_date_total: "\<exists>r. split_date db s = Inr r"
  by (cases "split_date_body db s") (auto simp add: split_date_def date_sentinel_def)

lemma split_date_three_parts:
  assumes sep: "sep = 47 \<or> (sep = 45 \<and> 47 \<notin> set m \<and> 47 \<notin> set d \<and> 47 \<notin> set y)"
    and "sep \<notin> set m" "sep \<notin> set d" "sep \<notin> set y"
  shows "split_date_body db (m @ sep # d @ sep # y) =
     (if length y = 2 then
        bind_exn (py_int db y 10)
          (\<lambda>n. Inr (zfill 2 m, zfill 2 d, (if 50 < n then lit ''19'' @ y else lit ''20'' @ y)))
      else Inr (zfill 2 m, zfill 2 d, y))"
proof -
  have parts: "py_split sep (m @ sep # d @ sep # y) = [m, d, y]"
    using assms by (simp add: py_split_three)
  from sep show ?thesis
  proof
    assume "sep = 47"
    with parts show ?thesis by (simp add: split_date_body_def)
  next
    assume "sep = 45 \<and> 47 \<notin> set m \<and> 47 \<notin> set d \<and> 47 \<notin> set y"
    with parts show ?thesis by (simp add: split_date_body_def)
  qed
qed

text \<open>
  Claim C7. For a date of three parts separated by \<^verbatim>\<open>'/'\<close> or by \<^verbatim>\<open>'-'\<close> whose year
  is two decimal digits, \<open>split_date\<close> pads month and day with zeros to at least two
  characters (a single digit \<open>c\<close> becomes \<open>0c\<close>) and puts \<^verbatim>\<open>"19"\<close> before a year greater
  than 50 and \<^verbatim>\<open>"20"\<close> before any other; so \<^verbatim>\<open>"3/4/99"\<close> gives 03, 04, 1999 and
  \<^verbatim>\<open>"3/4/05"\<close> gives 03, 04, 2005.
\<close>

theorem split_date_two_digit_year:
  assumes "sep = 47 \<or> (sep = 45 \<and> 47 \<notin> set m \<and> 47 \<notin> set d \<and> 47 \<notin> set y)"
    and "sep \<notin> set m" "sep \<notin> set d" "sep \<notin> set y"
    and "y = [a, b]" "48 \<le> a" "a \<le> 57" "48 \<le> b" "b \<le> 57"
  shows "split_date db (m @ sep # d @ sep # y) =
           Inr (zfill 2 m, zfill 2 d,
                (if 50 < 10 * (a - 48) + (b - 48) then lit ''19'' else lit ''20'') @ y)
         \<and> length (zfill 2 m) \<ge> 2 \<and> length (zfill 2 d) \<ge> 2
         \<and> (48 \<le> c \<and> c \<le> 57 \<longrightarrow> zfill 2 [c] = [48, c])
         \<and> split_date db (lit ''3/4/99'') = Inr (lit ''03'', lit ''04'', lit ''1999'')
         \<and> split_date db (lit ''3/4/05'') = Inr (lit ''03'', lit ''04'', lit ''2005'')"
proof -
  have gen: "split_date db (m' @ sep' # d' @ sep' # [a', b']) =
           Inr (zfill 2 m', zfill 2 d',
                (if 50 < 10 * (a' - 48) + (b' - 48) then lit ''19'' else lit ''20'') @ [a', b'])"
    if "sep' = 47 \<or> (sep' = 45 \<and> 47 \<notin> set m' \<and> 47 \<notin> set d' \<and> 47 \<notin> set [a', b'])"
      "sep' \<notin> set m'" "sep' \<notin> set d'" "sep' \<notin> set [a', b']"
      "48 \<le> a'" "a' \<le> 57" "48 \<le> b'" "b' \<le> 57" for m' d' sep' a' b'
  proof -
    define n where "n = 10 * (a' - 48) + (b' - 48)"
    have "py_int db [a', b'] 10 = Inr (int n)"
      unfolding n_def using that by (intro py_int_two_digits) simp_all
    moreover have "(50 < int n) = (50 < n)"
      by linarith
    ultimately show ?thesis
      using that(1-4) unfolding n_def [symmetric]
      by (simp add: split_date_def split_date_three_parts bind_exn_def)
  qed
  have main: "split_date db (m @ sep # d @ sep # y) =
           Inr (zfill 2 m, zfill 2 d,
                (if 50 < 10 * (a - 48) + (b - 48) then lit ''19'' else lit ''20'') @ y)"
    using gen [of sep m d a b] assms by simp
  have pad: "length (zfill 2 s) \<ge> 2" for s
    by (cases s) (auto simp add: zfill_def)
  have one: "48 \<le> c \<and> c \<le> 57 \<longrightarrow> zfill 2 [c] = [48, c]"
    by (auto simp add: zfill_def numeral_2_eq_2)
  have e1: "split_date db (lit ''3/4/99'') = Inr (lit ''03'', lit ''04'', lit ''1999'')"
    using gen [of 47 "[51]" "[52]" 57 57] by (simp add: lit_def zfill_def)
  have e2: "split_date db (lit ''3/4/05'') = Inr (lit ''03'', lit ''04'', lit ''2005'')"
    using gen [of 47 "[51]" "[52]" 48 53] by (simp add: lit_def zfill_def)
  from main pad one e1 e2 show ?thesis by blast
qed

theorem split_date_two_digit_year_witness:
  "split_date latin1_db (lit ''12-5-51'') = Inr (lit ''12'', lit ''05'', lit ''1951'')
   \<and> split_date latin1_db (lit ''7/04/50'') = Inr (lit ''07'', lit ''04'', lit ''2050'')"
  using split_date_two_digit_year [of 45 "lit ''12''" "lit ''5''" "lit ''51''" 53 49 latin1_db 48]
    split_date_two_digit_year [of 47 "lit ''7''" "lit ''04''" "lit ''50''" 53 48 latin1_db 48]
  by (simp add: lit_def zfill_def)

subsection \<open>Splitting dates with the console output\<close>

text \<open>
  The method and the value \<open>split_date\<close> agree whenever the method returns, on every
  console that accepts the lines about the string, and on the dates of three parts whose
  year \<^verbatim>\<open>int\<close> accepts or does not see: there the method prints nothing.
\<close>

lemma py_print_None: "out msg = None \<Longrightarrow> py_print out msg = Inr ()"
  by (simp add: py_print_def)

lemma py_print_Some: "out msg = Some e \<Longrightarrow> py_print out msg = Inl e"
  by (simp add: py_print_def)

lemma split_date_try_parts: "split_date_try out db s =
   (if length (date_parts s) = 3 then split_date_parts out db s (date_parts s)
    else bind_exn (py_print out (date_warning s)) (\<lambda>u. Inr date_sentinel))"
proof (cases "47 \<in> set s")
  case True
  then show ?thesis
    by (auto simp add: split_date_try_def date_parts_def date_warning_def split_date_parts_def
        split: list.splits)
next
  case False
  show ?thesis
  proof (cases "45 \<in> set s")
    case True
    with False show ?thesis
      by (auto simp add: split_date_try_def date_parts_def date_warning_def split_date_parts_def
          split: list.splits)
  next
    case no: False
    with False show ?thesis
      by (simp add: split_date_try_def date_parts_def date_warning_def py_split_no_sep)
  qed
qed

lemma split_date_body_parts: "split_date_body db s =
   (case date_parts s of
      [m, d, y] \<Rightarrow>
        if length y = 2 then
          bind_exn (py_int db y 10)
            (\<lambda>n. Inr (zfill 2 m, zfill 2 d, (if 50 < n then lit ''19'' @ y else lit ''20'' @ y)))
        else Inr (zfill 2 m, zfill 2 d, y)
    | _ \<Rightarrow> Inr date_sentinel)"
  by (auto simp add: split_date_body_def date_parts_def py_split_no_sep Let_def split: list.splits)

lemma py_int_exn: "py_int db s base = Inl e \<Longrightarrow> e = ValueError"
  by (auto simp add: py_int_def Let_def split: prod.splits if_splits)

lemma split_date_console_returns:
  "split_date_console out db s = Inr r \<Longrightarrow> split_date db s = Inr r"
  by (auto simp add: split_date_console_def split_date_def split_date_try_parts
      split_date_body_parts split_date_parts_def bind_exn_def py_print_def
      split: sum.splits list.splits if_splits option.splits)

lemma split_date_console_quiet: "split_date_console (\<lambda>msg. None) db s = split_date db s"
  by (auto simp add: split_date_console_def split_date_def split_date_try_parts
      split_date_body_parts split_date_parts_def bind_exn_def py_print_def
      split: sum.splits list.splits if_splits option.splits)

lemma split_date_console_silent:
  assumes "date_parts s = [m, d, y]" and "length y = 2 \<Longrightarrow> \<exists>n. py_int db y 10 = Inr n"
  shows "split_date_console out db s = split_date db s"
  using assms
  by (auto simp add: split_date_console_def split_date_def split_date_try_parts
      split_date_body_parts split_date_parts_def bind_exn_def
      split: sum.splits)

lemma split_date_console_accepted:
  assumes "console_accepts out s"
  shows "split_date_console out db s = split_date db s"
  using assms
  by (auto simp add: split_date_console_def split_date_def split_date_try_parts
      split_date_body_parts split_date_parts_def bind_exn_def py_print_def console_accepts_def
      date_warning_def dest: py_int_exn
      split: sum.splits list.splits if_splits option.splits)

lemma split_date_console_raises:
  assumes "length (date_parts s) \<noteq> 3" and "out (date_warning s) = Some e"
    and "out (Error_parsing_date s e) = Some e'"
  shows "split_date_console out db s = Inl e'"
  using assms
  by (simp add: split_date_console_def split_date_try_parts bind_exn_def py_print_def)

lemma split_date_unvalidated:
  assumes "date_parts s = [m, d, y]" and "length y \<noteq> 2"
  shows "split_date_console out db s = Inr (zfill 2 m, zfill 2 d, y)"
  using assms
  by (simp add: split_date_console_def split_date_try_parts split_date_parts_def)

lemma split_date_bad_year:
  assumes "console_accepts out s" "date_parts s = [m, d, y]" "length y = 2"
    "py_int db y 10 = Inl e"
  shows "split_date_console out db s = Inr date_sentinel"
  using assms py_int_exn [of db y 10 e]
  by (simp add: split_date_console_def split_date_try_parts split_date_parts_def bind_exn_def
      py_print_def console_accepts_def)

lemma split_date_not_three_parts:
  assumes "console_accepts out s" "length (date_parts s) \<noteq> 3"
  shows "split_date_console out db s = Inr date_sentinel"
  using assms
  by (auto simp add: split_date_console_def split_date_try_parts bind_exn_def
      py_print_def console_accepts_def date_warning_def)

text \<open>
  Claim C6, amended. On a console that accepts the lines about the string the method
  returns, and it returns the sentinel \<^verbatim>\<open>("01", "01", "1970")\<close> when the parts it looks at
  are not three (the split at \<^verbatim>\<open>'/'\<close> when there is a \<^verbatim>\<open>'/'\<close>, otherwise the split at
  \<^verbatim>\<open>'-'\<close>), and when they are three with a year of two characters that \<^verbatim>\<open>int\<close> rejects.
  Three parts with a year of any other length are returned, month and day padded,
  whatever they hold and on every console: nothing checks that they are numbers. When
  the console refuses the warning and then the line of the handler, or refuses the line
  of the handler after \<^verbatim>\<open>int\<close> has failed, the exception of that last \<^verbatim>\<open>print\<close> leaves the
  method.
\<close>

theorem split_date_sentinel_on_console:
  "(console_accepts out s \<longrightarrow> (\<exists>r. split_date_console out db s = Inr r))
   \<and> (console_accepts out s \<and> length (date_parts s) \<noteq> 3
        \<longrightarrow> split_date_console out db s = Inr date_sentinel)
   \<and> (console_accepts out s \<and> date_parts s = [m, d, y] \<and> length y = 2
        \<and> py_int db y 10 = Inl ValueError
        \<longrightarrow> split_date_console out db s = Inr date_sentinel)
   \<and> (date_parts s = [m, d, y] \<and> length y \<noteq> 2
        \<longrightarrow> split_date_console out db s = Inr (zfill 2 m, zfill 2 d, y))
   \<and> (length (date_parts s) \<noteq> 3 \<and> out (date_warning s) = Some e
        \<and> out (Error_parsing_date s e) = Some e'
        \<longrightarrow> split_date_console out db s = Inl e')
   \<and> (date_parts s = [m, d, y] \<and> length y = 2 \<and> py_int db y 10 = Inl ValueError
        \<and> out (Error_parsing_date s ValueError) = Some e'
        \<longrightarrow> split_date_console out db s = Inl e')"
proof -
  have returns: "\<exists>r. split_date_console out db s = Inr r" if "console_accepts out s"
    using split_date_console_accepted [OF that] split_date_total [of db s] by simp
  have bad_year_raises: "split_date_console out db s = Inl e'"
    if "date_parts s = [m, d, y]" "length y = 2" "py_int db y 10 = Inl ValueError"
      "out (Error_parsing_date s ValueError) = Some e'"
    using that
    by (simp add: split_date_console_def split_date_try_parts split_date_parts_def bind_exn_def
        py_print_def)
  show ?thesis
    using returns split_date_not_three_parts [of out s db] split_date_bad_year [of out s m d y db]
      split_date_unvalidated [of s m d y out db] split_date_console_raises [of s out e e' db]
      bad_year_raises
    by (intro conjI impI) (elim conjE; assumption | simp)+
qed

text \<open>
  Claim C6 (amended) on the UTF-8 console: strings without three parts, a year that is
  not a number, a date with a year of four digits, and two strings with a lone surrogate.
\<close>

theorem split_date_sentinel_on_console_witness:
  "console_accepts utf8_console (lit ''20240101'')
   \<and> length (date_parts (lit ''20240101'')) \<noteq> 3
   \<and> split_date_console utf8_console latin1_db (lit ''20240101'') = Inr date_sentinel
   \<and> split_date_console utf8_console latin1_db (lit ''1-2-3/4'') = Inr date_sentinel
   \<and> split_date_console utf8_console latin1_db (lit ''1/2/ab'') = Inr date_sentinel
   \<and> split_date_console utf8_console latin1_db (lit ''3/4/1999'')
       = Inr (lit ''03'', lit ''04'', lit ''1999'')
   \<and> split_date_console utf8_console latin1_db [55296, 47] = Inl UnicodeEncodeError
   \<and> split_date_console utf8_console latin1_db (lit ''1/2/'' @ [55296, 48])
       = Inl UnicodeEncodeError"
  using
    split_date_sentinel_on_console [where out = utf8_console and s = "lit ''20240101''"
      and db = latin1_db]
    split_date_sentinel_on_console [where out = utf8_console and s = "lit ''1-2-3/4''"
      and db = latin1_db]
    split_date_sentinel_on_console [where out = utf8_console and s = "lit ''1/2/ab''"
      and db = latin1_db and m = "lit ''1''" and d = "lit ''2''" and y = "lit ''ab''"]
    split_date_sentinel_on_console [where out = utf8_console and s = "lit ''3/4/1999''"
      and db = latin1_db and m = "lit ''3''" and d = "lit ''4''" and y = "lit ''1999''"]
    split_date_sentinel_on_console [where out = utf8_console and s = "[55296, 47]"
      and db = latin1_db and e = UnicodeEncodeError and e' = UnicodeEncodeError]
    split_date_sentinel_on_console [where out = utf8_console and s = "lit ''1/2/'' @ [55296, 48]"
      and db = latin1_db and m = "lit ''1''" and d = "lit ''2''" and y = "[55296, 48]"
      and e' = UnicodeEncodeError]
  by (simp add: lit_def date_parts_def date_warning_def console_accepts_def utf8_console_def
      surrogate_def zfill_def py_int_def latin1_db_def to_ascii_def ascii_space_def
      strip_sign_def strip_prefix_def digit_or_underscore_def digit_value_def)

text \<open>
  Claim C6 as stated fails. \<^verbatim>\<open>"ab/cd/efgh"\<close> is not a date, and the method returns its
  three parts instead of the sentinel. The string that is the lone surrogate U+D800 has
  no separator: on the UTF-8 console the warning raises \<open>UnicodeEncodeError\<close>, the handler
  catches it, and the \<^verbatim>\<open>print\<close> of the handler raises it again, out of the method.
\<close>

theorem split_date_unparseable_not_sentinel:
  "split_date_console utf8_console latin1_db (lit ''ab/cd/efgh'')
     = Inr (lit ''ab'', lit ''cd'', lit ''efgh'')
   \<and> (lit ''ab'', lit ''cd'', lit ''efgh'') \<noteq> date_sentinel
   \<and> split_date_console utf8_console latin1_db [55296] = Inl UnicodeEncodeError"
  by (simp add: lit_def split_date_console_def split_date_try_def split_date_parts_def
      date_sentinel_def zfill_def bind_exn_def py_print_def utf8_console_def surrogate_def)

subsection \<open>The field mapping\<close>

lemma distinct_text_field_keys: "distinct text_field_keys"
  by (simp add: text_field_keys_def)

lemma election_key_fresh: "election_key f \<notin> set text_field_keys"
  by (cases f) (simp_all add: text_field_keys_def)

lemma election_key_inj: "election_key f = election_key g \<longleftrightarrow> f = g"
  by (cases f; cases g) simp_all

lemma dict_set_fresh: "k \<notin> fst ` set m \<Longrightarrow> dict_set k v m = m @ [(k, v)]"
  by (induction m) auto

lemma dict_display_acc:
  "distinct (map fst acc @ map fst items) \<Longrightarrow>
   foldl (\<lambda>m (k, v). dict_set k v m) acc items = acc @ items"
proof (induction items arbitrary: acc)
  case Nil
  then show ?case by simp
next
  case (Cons kv items)
  obtain k v where kv: "kv = (k, v)" by (cases kv)
  from Cons.prems have fresh: "k \<notin> fst ` set acc" by (auto simp add: kv)
  from Cons.prems have "distinct (map fst (acc @ [(k, v)]) @ map fst items)"
    by (auto simp add: kv)
  from Cons.IH [OF this] show ?case
    by (simp add: kv dict_set_fresh [OF fresh])
qed

lemma dict_display_distinct: "distinct (map fst items) \<Longrightarrow> dict_display items = items"
  using dict_display_acc [of "[]" items] by (simp add: dict_display_def)

lemma dict_display_zip:
  "length vals = length text_field_keys \<Longrightarrow>
   dict_display (zip text_field_keys vals) = zip text_field_keys vals"
  by (rule dict_display_distinct) (simp add: distinct_text_field_keys)

lemma split_date_result: "\<exists>m d y. split_date db s = Inr (m, d, y)"
  by (cases "split_date_body db s") (auto simp add: split_date_def date_sentinel_def)

lemma length_text_values: "length (text_values db vi si dob sig) = length text_field_keys"
  by (simp add: text_values_def text_field_keys_def Let_def)

lemma create_field_mapping_unfold:
  assumes vi: "veteran_info d = Some vi"
    and dob: "(if get_str (date_of_birth vi) \<noteq> [] then split_date db (get_str (date_of_birth vi))
               else Inr ([], [], [])) = Inr dob"
    and sig: "(if get_str (date_signed (get_or no_signature_info (signature_info d))) \<noteq> []
               then split_date db (get_str (date_signed (get_or no_signature_info (signature_info d))))
               else Inr (fmt_02d (month today), fmt_02d (day today), py_str_nat (year today)))
              = Inr sig"
  shows "create_field_mapping db today d =
         Inr (zip text_field_keys
                (text_values db vi (get_or no_signature_info (signature_info d)) dob sig)
              @ checkbox_items (get_or no_benefit_election (benefit_election d)))"
proof -
  let ?si = "get_or no_signature_info (signature_info d)"
  let ?be = "get_or no_benefit_election (benefit_election d)"
  let ?base = "zip text_field_keys (text_values db vi ?si dob sig)"
  have base: "dict_display ?base = ?base"
    by (rule dict_display_zip) (rule length_text_values)
  have keys: "map fst ?base = text_field_keys"
    by (simp add: length_text_values)
  have f1: "dict_set (election_key f) v ?base = ?base @ [(election_key f, v)]" for f v
    by (rule dict_set_fresh) (simp add: keys election_key_fresh flip: set_map)
  have f2: "dict_set (election_key f) v (?base @ [(election_key g, w)])
            = ?base @ [(election_key g, w), (election_key f, v)]" if "f \<noteq> g" for f g v w
    using that
    by (subst dict_set_fresh)
      (auto simp add: keys election_key_fresh election_key_inj image_Un simp flip: set_map)
  have f3: "dict_set (election_key f) v (?base @ [(election_key g, w), (election_key h, u)])
            = ?base @ [(election_key g, w), (election_key h, u), (election_key f, v)]"
    if "f \<noteq> g" "f \<noteq> h" for f g h v w u
    using that
    by (subst dict_set_fresh)
      (auto simp add: keys election_key_fresh election_key_inj image_Un simp flip: set_map)
  have step1: "create_field_mapping db today d =
      (let m0 = dict_display ?base;
           m1 = (if get_flag (compensation ?be)
                 then dict_set (election_key Compensation) (lit ''/1'') m0 else m0);
           m2 = (if get_flag (pension ?be)
                 then dict_set (election_key Pension) (lit ''/1'') m1 else m1);
           m3 = (if get_flag (survivors_pension_dic ?be)
                 then dict_set (election_key Survivors_pension_dic) (lit ''/1'') m2 else m2)
       in Inr m3)"
    unfolding create_field_mapping_def vi option.case
    by (simp only: Let_def case_prod_beta bind_exn_def dob sig sum.case text_field_keys_def
        text_values_def zip_Cons_Cons zip_Nil election_key.simps)
  show ?thesis
    unfolding step1 base
    by (simp add: Let_def checkbox_items_def f1 f2 f3 del: election_key.simps)
qed

lemma create_field_mapping_KeyError:
  "veteran_info d = None \<Longrightarrow> create_field_mapping db today d = Inl KeyError"
  by (simp only: create_field_mapping_def option.case)

lemma create_field_mapping_Inr:
  "create_field_mapping db today d = Inr m \<Longrightarrow> \<exists>vi. veteran_info d = Some vi"
  using create_field_mapping_KeyError [of d db today] by (cases "veteran_info d") simp_all

lemma create_field_mapping_closed:
  assumes vi: "veteran_info d = Some vi"
  shows "create_field_mapping db today d =
         Inr (zip text_field_keys
                (text_values db vi (signature_of d) (birth_parts db vi) (signed_parts db today d))
              @ checkbox_items (election_of d))"
proof -
  obtain a b c where 1: "split_date db (get_str (date_of_birth vi)) = Inr (a, b, c)"
    using split_date_result by blast
  obtain a' b' c' where 2: "split_date db (get_str (date_signed (signature_of d))) = Inr (a', b', c')"
    using split_date_result by blast
  have dob: "(if get_str (date_of_birth vi) \<noteq> [] then split_date db (get_str (date_of_birth vi))
               else Inr ([], [], [])) = Inr (birth_parts db vi)"
    by (simp add: birth_parts_def 1)
  have sig: "(if get_str (date_signed (get_or no_signature_info (signature_info d))) \<noteq> []
               then split_date db (get_str (date_signed (get_or no_signature_info (signature_info d))))
               else Inr (fmt_02d (month today), fmt_02d (day today), py_str_nat (year today)))
              = Inr (signed_parts db today d)"
    using 2 by (simp add: signed_parts_def signature_of_def)
  show ?thesis
    using create_field_mapping_unfold [OF vi dob sig]
    by (simp only: signature_of_def election_of_def)
qed


lemma checkbox_items_filter:
  "checkbox_items be =
     map (\<lambda>f. (election_key f, lit ''/1''))
       (filter (\<lambda>f. get_flag (election_flag be f)) [Compensation, Pension, Survivors_pension_dic])"
  by (simp add: checkbox_items_def del: election_key.simps)

lemma map_of_election:
  "map_of (map (\<lambda>f. (election_key f, v)) fs) (election_key f) = (if f \<in> set fs then Some v else None)"
  by (induction fs) (auto simp add: election_key_inj simp del: election_key.simps)

lemma flag_is_true_get_flag: "get_flag (election_flag (election_of d) f) = flag_is_true d f"
  by (cases "benefit_election d"; cases f)
    (auto simp add: election_of_def flag_is_true_def get_flag_def get_or_def no_benefit_election_def
      split: option.splits)

lemma election_universe: "f \<in> set [Compensation, Pension, Survivors_pension_dic]"
  by (cases f) simp_all

text \<open>
  Claim C1. In the map that \<open>create_field_mapping\<close> returns, the election-flag keys are
  exactly the checkbox paths of the flags that are true in the input record: each true
  flag maps its path to the selected token \<^verbatim>\<open>"/1"\<close>, a flag that is false or absent has no
  key, no other value is ever stored under a checkbox path, and no key occurs twice.
\<close>

theorem election_keys_exactly_true_flags:
  assumes "create_field_mapping db today d = Inr m"
  shows "set (dict_keys m) \<inter> range election_key = election_key ` {f. flag_is_true d f}
         \<and> (\<forall>f. flag_is_true d f \<longrightarrow> dict_get m (election_key f) = Some (lit ''/1''))
         \<and> (\<forall>f. \<not> flag_is_true d f \<longrightarrow> dict_get m (election_key f) = None)
         \<and> (\<forall>f v. (election_key f, v) \<in> set m \<longrightarrow> v = lit ''/1'')
         \<and> distinct (dict_keys m)"
proof -
  from assms obtain vi where vi: "veteran_info d = Some vi"
    using create_field_mapping_Inr by blast
  let ?vals = "text_values db vi (signature_of d) (birth_parts db vi) (signed_parts db today d)"
  let ?sel = "filter (\<lambda>f. flag_is_true d f) [Compensation, Pension, Survivors_pension_dic]"
  let ?cb = "map (\<lambda>f. (election_key f, lit ''/1'')) ?sel"
  have m_eq: "m = zip text_field_keys ?vals @ ?cb"
    using create_field_mapping_closed [OF vi, of db today] assms
    by (simp add: checkbox_items_filter flag_is_true_get_flag del: election_key.simps)
  have keys: "dict_keys m = text_field_keys @ map election_key ?sel"
    by (simp add: dict_keys_def m_eq length_text_values comp_def del: election_key.simps)
  have sel: "set ?sel = {f. flag_is_true d f}"
    unfolding set_filter using election_universe by blast
  have k1: "set (dict_keys m) \<inter> range election_key = election_key ` {f. flag_is_true d f}"
    unfolding keys using election_key_fresh sel by auto
  have fresh: "map_of (zip text_field_keys ?vals) (election_key f) = None" for f
    using election_key_fresh [of f]
    by (metis length_text_values map_fst_zip map_of_eq_None_iff set_map)
  have look: "dict_get m (election_key f) = (if flag_is_true d f then Some (lit ''/1'') else None)"
    for f
    using sel by (simp add: dict_get_def m_eq map_add_def fresh map_of_election del: election_key.simps)
  have vals: "v = lit ''/1''" if "(election_key f, v) \<in> set m" for f v
  proof -
    from that have "(election_key f, v) \<in> set (zip text_field_keys ?vals) \<or> (election_key f, v) \<in> set ?cb"
      by (simp add: m_eq del: election_key.simps)
    then show ?thesis
    proof
      assume "(election_key f, v) \<in> set (zip text_field_keys ?vals)"
      then have "election_key f \<in> set text_field_keys" by (rule set_zip_leftD)
      with election_key_fresh show ?thesis by blast
    next
      assume "(election_key f, v) \<in> set ?cb"
      then show ?thesis by auto
    qed
  qed
  have inj: "inj election_key"
    by (rule injI) (simp add: election_key_inj del: election_key.simps)
  have d1: "distinct ?sel"
    by (rule distinct_filter) simp
  have d2: "distinct (map election_key ?sel)"
    unfolding distinct_map using d1 inj inj_on_subset by blast
  have d3: "set text_field_keys \<inter> set (map election_key ?sel) = {}"
    unfolding set_map using election_key_fresh by blast
  have dist: "distinct (dict_keys m)"
    unfolding keys distinct_append using distinct_text_field_keys d2 d3 by blast
  from k1 look vals dist show ?thesis by (simp del: election_key.simps)
qed














lemma sample_mapping_eval:
  "create_field_mapping latin1_db sample_today sample_record = Inr sample_mapping"
proof -
  have vi: "veteran_info sample_record = Some sample_veteran"
    by (simp add: sample_record_def)
  have dob: "birth_parts latin1_db sample_veteran = (lit ''03'', lit ''04'', lit ''1999'')"
    by (simp add: birth_parts_def sample_veteran_def get_str_def split_date_def
        split_date_body_def lit_def zfill_def)
  have sig: "signed_parts latin1_db sample_today sample_record = (lit ''11'', lit ''04'', lit ''2026'')"
    by (simp add: signed_parts_def signature_of_def sample_record_def get_or_def
        no_signature_info_def get_str_def sample_today_def fmt_02d_def lit_def)
  have cb: "checkbox_items (election_of sample_record) = [(election_key Compensation, lit ''/1'')]"
    by (simp add: checkbox_items_def election_of_def sample_record_def get_or_def get_flag_def
        del: election_key.simps)
  have vals: "text_values latin1_db sample_veteran (signature_of sample_record)
                (lit ''03'', lit ''04'', lit ''1999'') (lit ''11'', lit ''04'', lit ''2026'') =
       [lit ''John'', [], lit ''Doe'', [], [], [], lit ''03'', lit ''04'', lit ''1999'',
        [], [], [], [], [], [], [], [], [], [], [], [], [], [],
        lit ''11'', lit ''04'', lit ''2026'', []]"
    by (simp add: text_values_def sample_veteran_def signature_of_def sample_record_def
        get_or_def get_str_def no_address_def no_signature_info_def handle_email_overflow_def)
  show ?thesis
    unfolding create_field_mapping_closed [OF vi] dob sig cb vals sample_mapping_def ..
qed

text \<open>Claim C1 at the sample record: compensation is selected, the others have no key.\<close>

theorem election_keys_exactly_true_flags_witness:
  "create_field_mapping latin1_db sample_today sample_record = Inr sample_mapping
   \<and> flag_is_true sample_record Compensation
   \<and> \<not> flag_is_true sample_record Pension
   \<and> \<not> flag_is_true sample_record Survivors_pension_dic
   \<and> dict_get sample_mapping (election_key Compensation) = Some (lit ''/1'')
   \<and> dict_get sample_mapping (election_key Pension) = None
   \<and> dict_get sample_mapping (election_key Survivors_pension_dic) = None"
  using election_keys_exactly_true_flags [OF sample_mapping_eval] sample_mapping_eval
  by (simp add: flag_is_true_def sample_record_def del: election_key.simps)




subsection \<open>Decoding field names\<close>

lemma decode_units_step:
  "decode_units db (hex_char # rest) decoded =
     (case chunk_code db hex_char of
        Inl e \<Rightarrow> Inl e
      | Inr ch \<Rightarrow> decode_units db rest (decoded @ [ch]))"
  by (simp add: chunk_code_def bind_exn_def split: sum.splits)

lemma decode_units_fails:
  "\<exists>chunk \<in> set chunks. isl (chunk_code db chunk) \<Longrightarrow> isl (decode_units db chunks decoded)"
proof (induction chunks arbitrary: decoded)
  case Nil
  then show ?case by simp
next
  case (Cons chunk chunks)
  show ?case
  proof (cases "chunk_code db chunk")
    case (Inl e)
    then show ?thesis by (simp add: decode_units_step del: decode_units.simps)
  next
    case (Inr ch)
    with Cons.prems have "\<exists>chunk \<in> set chunks. isl (chunk_code db chunk)" by auto
    from Cons.IH [OF this] Inr show ?thesis
      by (simp add: decode_units_step del: decode_units.simps)
  qed
qed

lemma decode_units_succeeds:
  "\<forall>chunk \<in> set chunks. \<not> isl (chunk_code db chunk) \<Longrightarrow>
   decode_units db chunks decoded = Inr (decoded @ map (\<lambda>chunk. projr (chunk_code db chunk)) chunks)"
proof (induction chunks arbitrary: decoded)
  case Nil
  then show ?case by simp
next
  case (Cons chunk chunks)
  then obtain ch where ch: "chunk_code db chunk = Inr ch"
    by (cases "chunk_code db chunk") auto
  from Cons show ?case
    by (simp add: decode_units_step ch del: decode_units.simps)
qed

lemma decode_total: "\<exists>r. decode_unicode_field_name db raw = Inr r"
  by (simp add: decode_unicode_field_name_def split: sum.splits)

lemma decode_wrapped:
  assumes "bom_wrapped raw"
  shows "decode_unicode_field_name db raw =
     (if \<exists>chunk \<in> set (hex_chunks (hex_payload raw)). isl (chunk_code db chunk) then Inr raw
      else Inr (map (\<lambda>chunk. projr (chunk_code db chunk)) (hex_chunks (hex_payload raw))))"
proof (cases "\<exists>chunk \<in> set (hex_chunks (hex_payload raw)). isl (chunk_code db chunk)")
  case True
  from decode_units_fails [OF this, of "[]"] obtain e where
    "decode_units db (hex_chunks (hex_payload raw)) [] = Inl e"
    by (cases "decode_units db (hex_chunks (hex_payload raw)) []") auto
  with assms True show ?thesis
    by (simp add: decode_unicode_field_name_def bom_wrapped_def hex_payload_def)
next
  case False
  then have "\<forall>chunk \<in> set (hex_chunks (hex_payload raw)). \<not> isl (chunk_code db chunk)" by blast
  from decode_units_succeeds [OF this, of "[]"] assms False show ?thesis
    by (simp add: decode_unicode_field_name_def bom_wrapped_def hex_payload_def)
qed

lemma in_some_chunk:
  assumes "c \<in> set payload"
  shows "\<exists>chunk \<in> set (hex_chunks payload). c \<in> set chunk"
proof -
  from assms obtain i where i: "i < length payload" "payload ! i = c"
    by (auto simp add: in_set_conv_nth)
  let ?k = "i div 4"
  let ?chunk = "take 4 (drop (4 * ?k) payload)"
  have k: "?k < (length payload + 3) div 4" using i(1) by simp
  have "?chunk \<in> set (hex_chunks payload)"
    unfolding hex_chunks_def using k by (auto intro!: image_eqI [where x = "?k"])
  moreover have "i mod 4 < length ?chunk" using i(1) by (simp add: min_def) presburger
  moreover have "?chunk ! (i mod 4) = c"
    using i by simp
  ultimately show ?thesis
    by (metis nth_mem)
qed

lemma digit_value_hex: "digit_value a < 16 \<longleftrightarrow> is_hex_digit a"
  by (auto simp add: digit_value_def is_hex_digit_def)

lemma strip_sign_set: "set s \<subseteq> set (snd (strip_sign s)) \<union> {43, 45}"
  by (auto simp add: strip_sign_def split: list.splits if_splits)

lemma strip_prefix_set: "set s \<subseteq> set (strip_prefix base s) \<union> {48, 120, 88, 95}"
  by (auto simp add: strip_prefix_def split: list.splits if_splits)

lemma py_int_accepts_chars:
  assumes "py_int db s 16 = Inr n" and "c \<in> set s"
  shows "int16_char db c"
proof -
  define s0 where "s0 = map (to_ascii db) s"
  define s1 where "s1 = dropWhile ascii_space s0"
  define s2 where "s2 = snd (strip_sign s1)"
  define s3 where "s3 = strip_prefix 16 s2"
  define ds where "ds = takeWhile (digit_or_underscore 16) s3"
  define rest where "rest = dropWhile (digit_or_underscore 16) s3"
  from assms(1) have tail: "dropWhile ascii_space rest = []"
    unfolding py_int_def Let_def s0_def [symmetric] s1_def [symmetric]
    by (simp add: case_prod_beta s2_def [symmetric] s3_def [symmetric] ds_def [symmetric]
        rest_def [symmetric] split: if_splits)
  have "\<forall>a \<in> set rest. int16_ascii a"
    using tail by (auto simp add: dropWhile_eq_Nil_conv int16_ascii_def)
  moreover have "\<forall>a \<in> set ds. int16_ascii a"
    unfolding ds_def
    by (auto dest!: set_takeWhileD simp add: digit_or_underscore_def digit_value_hex int16_ascii_def)
  moreover have "s3 = ds @ rest" by (simp add: ds_def rest_def)
  ultimately have 3: "\<forall>a \<in> set s3. int16_ascii a" by auto
  have 2: "\<forall>a \<in> set s2. int16_ascii a"
    using 3 strip_prefix_set [of s2 16] unfolding s3_def [symmetric]
    by (auto simp add: int16_ascii_def is_hex_digit_def)
  have 1: "\<forall>a \<in> set s1. int16_ascii a"
    using 2 strip_sign_set [of s1] unfolding s2_def [symmetric]
    by (auto simp add: int16_ascii_def)
  have "s0 = takeWhile ascii_space s0 @ s1" by (simp add: s1_def)
  moreover have "\<forall>a \<in> set (takeWhile ascii_space s0). int16_ascii a"
    by (auto dest!: set_takeWhileD simp add: int16_ascii_def)
  ultimately have 0: "\<forall>a \<in> set s0. int16_ascii a"
    using 1 by (metis UnE set_append)
  from assms(2) have "to_ascii db c \<in> set s0" by (simp add: s0_def)
  with 0 show ?thesis by (simp add: int16_char_def)
qed

lemma chunk_with_foreign_char_fails:
  assumes "c \<in> set chunk" and "\<not> int16_char db c"
  shows "isl (chunk_code db chunk)"
proof (cases "py_int db chunk 16")
  case (Inl e)
  then show ?thesis by (simp add: chunk_code_def bind_exn_def)
next
  case (Inr n)
  with py_int_accepts_chars assms show ?thesis by blast
qed

text \<open>
  Claim C8, amended. \<open>decode_unicode_field_name\<close> returns on every token: no exception
  leaves it. A wrapped token comes back unchanged whenever \<^verbatim>\<open>int(hex_char, 16)\<close> or \<^verbatim>\<open>chr\<close>
  rejects one of the slices of four characters of its payload, and so whenever the
  payload holds a character that no string accepted by \<^verbatim>\<open>int(s, 16)\<close> holds. A payload that
  is not hexadecimal but whose slices \<^verbatim>\<open>int\<close> accepts is decoded all the same.
\<close>

theorem decode_unicode_field_name_total_fallback:
  "(\<exists>r. decode_unicode_field_name db raw = Inr r)
   \<and> (bom_wrapped raw \<and> (\<exists>chunk \<in> set (hex_chunks (hex_payload raw)). isl (chunk_code db chunk))
        \<longrightarrow> decode_unicode_field_name db raw = Inr raw)
   \<and> (bom_wrapped raw \<and> (\<exists>c \<in> set (hex_payload raw). \<not> int16_char db c)
        \<longrightarrow> decode_unicode_field_name db raw = Inr raw)"
proof -
  have a: "decode_unicode_field_name db raw = Inr raw"
    if "bom_wrapped raw" "\<exists>chunk \<in> set (hex_chunks (hex_payload raw)). isl (chunk_code db chunk)"
    using that by (simp add: decode_wrapped)
  have b: "decode_unicode_field_name db raw = Inr raw"
    if w: "bom_wrapped raw" and "\<exists>c \<in> set (hex_payload raw). \<not> int16_char db c"
  proof -
    from that obtain c where c: "c \<in> set (hex_payload raw)" "\<not> int16_char db c" by blast
    from in_some_chunk [OF c(1)] obtain chunk where
      "chunk \<in> set (hex_chunks (hex_payload raw))" "c \<in> set chunk" by blast
    with c(2) have "\<exists>chunk \<in> set (hex_chunks (hex_payload raw)). isl (chunk_code db chunk)"
      using chunk_with_foreign_char_fails by blast
    with w show ?thesis by (rule a)
  qed
  from decode_total a b show ?thesis by blast
qed

text \<open>Claim C8 (amended) at the token \<^verbatim>\<open><FEFF00G1>\<close>: it comes back unchanged.\<close>

theorem decode_unicode_field_name_total_fallback_witness:
  "bom_wrapped (lit ''<FEFF00G1>'')
   \<and> \<not> int16_char latin1_db 71
   \<and> 71 \<in> set (hex_payload (lit ''<FEFF00G1>''))
   \<and> decode_unicode_field_name latin1_db (lit ''<FEFF00G1>'') = Inr (lit ''<FEFF00G1>'')"
proof -
  have w: "bom_wrapped (lit ''<FEFF00G1>'')"
    by (simp add: bom_wrapped_def startswith_def endswith_def lit_def)
  have g: "\<not> int16_char latin1_db 71"
    by (simp add: int16_char_def int16_ascii_def to_ascii_def is_hex_digit_def ascii_space_def)
  have p: "71 \<in> set (hex_payload (lit ''<FEFF00G1>''))"
    by (simp add: hex_payload_def slice_to_last_def lit_def)
  from decode_unicode_field_name_total_fallback [of latin1_db "lit ''<FEFF00G1>''"] w g p
  have "decode_unicode_field_name latin1_db (lit ''<FEFF00G1>'') = Inr (lit ''<FEFF00G1>'')"
    by blast
  with w g p show ?thesis by simp
qed

text \<open>
  Claim C8 as stated fails. The payload of \<^verbatim>\<open><FEFF+041>\<close> is not a sequence of groups of
  four hexadecimal digits, yet \<^verbatim>\<open>int("+041", 16)\<close> is 65 and the token is decoded to
  \<^verbatim>\<open>"A"\<close> instead of being returned unchanged.
\<close>

theorem malformed_payload_is_decoded:
  "bom_wrapped (lit ''<FEFF+041>'')
   \<and> \<not> well_formed_hex (hex_payload (lit ''<FEFF+041>''))
   \<and> decode_unicode_field_name latin1_db (lit ''<FEFF+041>'') = Inr (lit ''A'')
   \<and> lit ''A'' \<noteq> lit ''<FEFF+041>''"
proof -
  have w: "bom_wrapped (lit ''<FEFF+041>'')"
    by (simp add: bom_wrapped_def startswith_def endswith_def lit_def)
  have p: "hex_payload (lit ''<FEFF+041>'') = [43, 48, 52, 49]"
    by (simp add: hex_payload_def slice_to_last_def lit_def)
  have m: "\<not> well_formed_hex (hex_payload (lit ''<FEFF+041>''))"
    by (simp add: p well_formed_hex_def is_hex_digit_def)
  have c: "hex_chunks [43, 48, 52, 49] = [[43, 48, 52, 49]]"
    by (simp add: hex_chunks_def)
  have i: "py_int latin1_db [43, 48, 52, 49] 16 = Inr 65"
    by (simp add: py_int_def to_ascii_def ascii_space_def strip_sign_def strip_prefix_def
        digit_or_underscore_def digit_value_def digits_value_def)
  have d: "decode_unicode_field_name latin1_db (lit ''<FEFF+041>'') = Inr (lit ''A'')"
    using w p c i
    by (simp add: decode_unicode_field_name_def bom_wrapped_def hex_payload_def py_chr_def
        lit_def)
  from w m d show ?thesis by simp
qed

subsection \<open>Searching the field tree\<close>


























subsection \<open>Filling the form\<close>

lemma fill_loop_Nil: "fill_loop out db [] st = (None, st)"
  by simp










end
